theory Spec2Isabelle
  imports Main "HOL-Library.AList" "HOL-Library.Char_ord" "HOL-Library.List_Lexorder"
begin

section \<open>Values, byte strings and faults\<close>

text \<open>
  The module is Python 2 (\<^verbatim>\<open>print\<close> statement in \<^verbatim>\<open>test.py\<close>): \<^verbatim>\<open>str\<close> is a byte
  string, which is what \<^verbatim>\<open>json.dumps\<close>, \<^verbatim>\<open>zlib\<close>, redis and lmdb exchange. A byte
  string is a \<open>string\<close> here (HOL characters are bytes).
\<close>

type_synonym bytes = string

text \<open>
  The Python values the storage layer is handed: JSON-like data. A \<^verbatim>\<open>dict\<close> is an
  association list; lookups go through \<open>map_of\<close>, writes through \<open>AList.update\<close>, so a key
  occurs once. The list order stands for the dictionary's iteration order, which Python 2
  leaves unspecified; no statement below depends on it.
\<close>

datatype pyval =
    PNone
  | PBool bool
  | PInt int
  | PStr bytes
  | PList "pyval list"
  | PDict "(bytes \<times> pyval) list"

text \<open>Every \<^verbatim>\<open>raise\<close> of the module and every fault of a library call it makes.\<close>

datatype error =
    KeyError
  | ValueError string
  | NotImplementedError
  | ImportError string
  | AttributeError
  | TypeError
  | ZlibError
  | ResponseError
  | BadValsizeError
  | LibraryError string

section \<open>The libraries the module calls\<close>

text \<open>
  \<^verbatim>\<open>zlib\<close>, \<^verbatim>\<open>json\<close>, redis-py and py-lmdb are not part of the repository. The module is
  verified against an environment \<open>E\<close> that supplies them: the zlib stream objects as state
  machines, \<^verbatim>\<open>json.dumps\<close> as a function that may raise, the two client libraries through
  what their constructors return. What the theorems need of them is stated as laws
  (\<open>zlib_ok\<close> below), never built into the module's definitions.
\<close>

datatype flush_mode = Z_SYNC_FLUSH | Z_FINISH

text \<open>
  What a redis server keeps under a key: a string (\<^verbatim>\<open>SET\<close>/\<^verbatim>\<open>GET\<close>) or a list
  (\<^verbatim>\<open>RPUSH\<close>/\<^verbatim>\<open>LRANGE\<close>). A command on a key of the other kind is answered with a
  WRONGTYPE error, which redis-py raises as ResponseError.
\<close>

datatype redis_val = RString bytes | RList "bytes list"

type_synonym redis_db = "(bytes \<times> redis_val) list"

text \<open>
  An lmdb database opened with \<^verbatim>\<open>dupsort=True\<close>: each key has a set of data items, kept
  sorted by byte value; an item a key already has is not stored a second time.
\<close>

type_synonym lmdb_db = "(bytes \<times> bytes list) list"

record ('c, 'd) env =
  zlib_compressobj :: "nat \<Rightarrow> 'c"
  zlib_compress :: "'c \<Rightarrow> bytes \<Rightarrow> 'c \<times> bytes"
  zlib_flush :: "'c \<Rightarrow> flush_mode \<Rightarrow> 'c \<times> bytes"
  zlib_decompressobj :: "'d"
  zlib_decompress :: "'d \<Rightarrow> bytes \<Rightarrow> error + 'd \<times> bytes"
  zlib_unconsumed_tail :: "'d \<Rightarrow> bytes"
  json_dumps :: "pyval \<Rightarrow> error + bytes"
  redis_module :: bool
  lmdb_module :: bool
  StrictRedis :: "(bytes \<times> pyval) list \<Rightarrow> error + redis_db"
  redis_match :: "bytes \<Rightarrow> bytes \<Rightarrow> bool"
  lmdb_open :: "pyval \<Rightarrow> error + (pyval \<Rightarrow> error + lmdb_db)"
  lmdb_key_ok :: "bytes \<Rightarrow> bool"
  lmdb_put_ok :: "bytes \<Rightarrow> bytes \<Rightarrow> bool"

text \<open>
  \<^item> \<open>zlib_compressobj E level\<close> is a new \<^verbatim>\<open>zlib.compressobj(level)\<close>; \<open>zlib_compress\<close> and
    \<open>zlib_flush\<close> are its methods, returning the object's next state and the bytes emitted.
  \<^item> \<open>zlib_decompressobj E\<close> is a new \<^verbatim>\<open>zlib.decompressobj()\<close>; \<open>zlib_decompress\<close> is its
    method \<^verbatim>\<open>decompress\<close> called without \<^verbatim>\<open>max_length\<close> (it may raise \<^verbatim>\<open>zlib.error\<close>),
    \<open>zlib_unconsumed_tail\<close> its attribute.
  \<^item> \<open>redis_module\<close> and \<open>lmdb_module\<close> say whether the imports at the top of the module
    succeeded (\<^verbatim>\<open>redis = None\<close> otherwise).
  \<^item> \<open>StrictRedis E kwargs\<close> is the database the client built from \<open>kwargs\<close> talks to (or the
    constructor's fault); \<open>redis_match E pattern key\<close> is the server's glob match.
  \<^item> \<open>lmdb_open E path\<close> is the environment at \<open>path\<close>: for each name, the content of
    the dupsort database \<^verbatim>\<open>open_db(name, dupsort=True)\<close> returns, or the library's fault.
  \<^item> \<open>lmdb_key_ok E key\<close> says that a cursor may be positioned on \<open>key\<close>, and
    \<open>lmdb_put_ok E key data\<close> that the pair may be stored (lmdb refuses an empty key, and a
    key or a dupsort data item beyond its size limit, with BadValsizeError).
  A call that does not come back because the server or the disk fails is outside the model.
\<close>

section \<open>Compressor\<close>

text \<open>
  A call that may raise and may loop has a result of type \<open>(error + 'a) option\<close>:
  \<open>None\<close> when it does not return, \<open>Some (Inl e)\<close> when it raises \<open>e\<close>,
  \<open>Some (Inr x)\<close> when it returns \<open>x\<close>.
\<close>

definition bind_result ::
    "(error + 'a) option \<Rightarrow> ('a \<Rightarrow> (error + 'b) option) \<Rightarrow> (error + 'b) option" where
  "bind_result m f =
     (case m of
        None \<Rightarrow> None
      | Some (Inl e) \<Rightarrow> Some (Inl e)
      | Some (Inr x) \<Rightarrow> f x)"

text \<open>
  \<^verbatim>\<open>
  while d.unconsumed_tail:
      t += d.decompress(d.unconsumed_tail)
  \<close>
  The loop of \<^verbatim>\<open>decompress\<close>; \<^verbatim>\<open>__init__\<close> runs the same loop and drops the output.
\<close>

partial_function (option) drain ::
    "('c, 'd) env \<Rightarrow> 'd \<Rightarrow> bytes \<Rightarrow> (error + 'd \<times> bytes) option" where
  "drain E d t =
     (if zlib_unconsumed_tail E d = [] then Some (Inr (d, t))
      else (case zlib_decompress E d (zlib_unconsumed_tail E d) of
              Inl e \<Rightarrow> Some (Inl e)
            | Inr r \<Rightarrow> drain E (fst r) (t @ snd r)))"

text \<open>
  The zlib objects are values here, so \<^verbatim>\<open>copy()\<close> is the identity; what it protects is
  visible in what a method returns as the new \<open>self\<close>.
\<close>

definition zcopy :: "'a \<Rightarrow> 'a" where
  "zcopy obj = obj"

record ('c, 'd) Compressor =
  c_context :: 'c
  d_context :: 'd

text \<open>
  \<^verbatim>\<open>
  def __init__(self, seed):
      c = zlib.compressobj(9)
      d_seed = c.compress(seed)
      d_seed += c.flush(zlib.Z_SYNC_FLUSH)
      self.c_context = c.copy()
      d = zlib.decompressobj()
      d.decompress(d_seed)
      while d.unconsumed_tail:
          d.decompress(d.unconsumed_tail)
      self.d_context = d.copy()
  \<close>
\<close>

definition Compressor_init ::
    "('c, 'd) env \<Rightarrow> bytes \<Rightarrow> (error + ('c, 'd) Compressor) option" where
  "Compressor_init E seed =
     (let c0 = zlib_compressobj E 9;
          r1 = zlib_compress E c0 seed;
          r2 = zlib_flush E (fst r1) Z_SYNC_FLUSH;
          d_seed = snd r1 @ snd r2;
          cc = zcopy (fst r2);
          d0 = zlib_decompressobj E
      in case zlib_decompress E d0 d_seed of
           Inl e \<Rightarrow> Some (Inl e)
         | Inr r3 \<Rightarrow>
             bind_result (drain E (fst r3) [])
               (\<lambda>r4. Some (Inr \<lparr>c_context = cc, d_context = zcopy (fst r4)\<rparr>)))"

text \<open>
  \<^verbatim>\<open>
  def compress(self, text):
      c = self.c_context.copy()
      t = c.compress(text)
      t2 = c.flush(zlib.Z_FINISH)
      return t + t2
  \<close>
  The method works on a copy and assigns no field: the instance it leaves is \<open>self\<close>.
\<close>

definition Compressor_compress ::
    "('c, 'd) env \<Rightarrow> ('c, 'd) Compressor \<Rightarrow> bytes \<Rightarrow> ('c, 'd) Compressor \<times> bytes" where
  "Compressor_compress E self text =
     (let c = zcopy (c_context self);
          r1 = zlib_compress E c text;
          r2 = zlib_flush E (fst r1) Z_FINISH
      in (self, snd r1 @ snd r2))"

text \<open>
  \<^verbatim>\<open>
  def decompress(self, ctext):
      d = self.d_context.copy()
      t = d.decompress(ctext)
      while d.unconsumed_tail:
          t += d.decompress(d.unconsumed_tail)
      return t
  \<close>
\<close>

definition Compressor_decompress ::
    "('c, 'd) env \<Rightarrow> ('c, 'd) Compressor \<Rightarrow> bytes
       \<Rightarrow> (error + ('c, 'd) Compressor \<times> bytes) option" where
  "Compressor_decompress E self ctext =
     (let d = zcopy (d_context self)
      in case zlib_decompress E d ctext of
           Inl e \<Rightarrow> Some (Inl e)
         | Inr r \<Rightarrow> bind_result (drain E (fst r) (snd r)) (\<lambda>r'. Some (Inr (self, snd r'))))"

text \<open>A run of \<^verbatim>\<open>compress\<close> calls on one instance: the instance left and the outputs.\<close>

fun compress_calls ::
    "('c, 'd) env \<Rightarrow> ('c, 'd) Compressor \<Rightarrow> bytes list \<Rightarrow> ('c, 'd) Compressor \<times> bytes list" where
  "compress_calls E self [] = (self, [])"
| "compress_calls E self (x # xs) =
     (let r = Compressor_compress E self x;
          rest = compress_calls E (fst r) xs
      in (fst rest, snd r # snd rest))"

subsection \<open>What zlib guarantees\<close>

text \<open>A run of method calls on one compression object, and the bytes it emits in all.\<close>

datatype zcall = Feed bytes | Flush flush_mode

fun zlib_run :: "('c, 'd) env \<Rightarrow> 'c \<Rightarrow> zcall list \<Rightarrow> 'c \<times> bytes" where
  "zlib_run E c [] = (c, [])"
| "zlib_run E c (Feed x # rest) =
     (let r = zlib_compress E c x; r' = zlib_run E (fst r) rest in (fst r', snd r @ snd r'))"
| "zlib_run E c (Flush m # rest) =
     (let r = zlib_flush E c m; r' = zlib_run E (fst r) rest in (fst r', snd r @ snd r'))"

fun fed :: "zcall list \<Rightarrow> bytes" where
  "fed [] = []"
| "fed (Feed x # rest) = x @ fed rest"
| "fed (Flush m # rest) = fed rest"

text \<open>The run ends with a flush, and nothing follows a \<^verbatim>\<open>Z_FINISH\<close>.\<close>

definition flushed :: "zcall list \<Rightarrow> bool" where
  "flushed calls =
     (case rev calls of
        Flush m # before \<Rightarrow> Flush Z_FINISH \<notin> set before
      | _ \<Rightarrow> False)"

text \<open>
  The laws of zlib the module relies on:
  \<^item> without \<^verbatim>\<open>max_length\<close>, \<^verbatim>\<open>decompress\<close> leaves \<^verbatim>\<open>unconsumed_tail\<close> empty;
  \<^item> a decompression object is a stream decoder: feeding \<open>a @ b\<close> in one call is feeding
    \<open>a\<close> and then \<open>b\<close>;
  \<^item> what a compression object has emitted when it is flushed decodes, on a new
    decompression object, to everything it was fed.
\<close>

definition zlib_ok :: "('c, 'd) env \<Rightarrow> bool" where
  "zlib_ok E =
     ((\<forall>d x d' out. zlib_decompress E d x = Inr (d', out) \<longrightarrow> zlib_unconsumed_tail E d' = [])
      \<and> (\<forall>d a b. zlib_decompress E d (a @ b) =
            (case zlib_decompress E d a of
               Inl e \<Rightarrow> Inl e
             | Inr r1 \<Rightarrow>
                 (case zlib_decompress E (fst r1) b of
                    Inl e \<Rightarrow> Inl e
                  | Inr r2 \<Rightarrow> Inr (fst r2, snd r1 @ snd r2))))
      \<and> (\<forall>level calls. flushed calls \<longrightarrow>
            (\<exists>d'. zlib_decompress E (zlib_decompressobj E)
                     (snd (zlib_run E (zlib_compressobj E level) calls))
                   = Inr (d', fed calls))))"

section \<open>InMemoryStorage\<close>

text \<open>
  \<^verbatim>\<open>
  class InMemoryStorage(BaseStorage):
      def __init__(self, config):
          self.name = 'dict'
          self.storage = dict()
      def keys(self):                  return self.storage.keys()
      def set_val(self, key, val):     self.storage[key] = val
      def get_val(self, key):          return self.storage[key]
      def append_val(self, key, val):  self.storage.setdefault(key, []).append(val)
      def get_list(self, key):         return self.storage.get(key, [])
  \<close>
  One dictionary serves both \<^verbatim>\<open>set_val\<close> and \<^verbatim>\<open>append_val\<close>. \<^verbatim>\<open>setdefault\<close> returns the
  object already stored under the key; \<^verbatim>\<open>.append\<close> on anything but a list raises
  AttributeError. \<^verbatim>\<open>get\<close> returns whatever is stored, a list or not.
\<close>

record InMemoryStorage =
  mem_name :: string
  mem_storage :: "(bytes \<times> pyval) list"

definition InMemoryStorage_init :: "(bytes \<times> pyval) list \<Rightarrow> InMemoryStorage" where
  "InMemoryStorage_init config = \<lparr>mem_name = ''dict'', mem_storage = []\<rparr>"

definition InMemoryStorage_keys :: "InMemoryStorage \<Rightarrow> bytes list" where
  "InMemoryStorage_keys self = map fst (mem_storage self)"

definition InMemoryStorage_set_val :: "InMemoryStorage \<Rightarrow> bytes \<Rightarrow> pyval \<Rightarrow> InMemoryStorage" where
  "InMemoryStorage_set_val self key val =
     self\<lparr>mem_storage := AList.update key val (mem_storage self)\<rparr>"

definition InMemoryStorage_get_val :: "InMemoryStorage \<Rightarrow> bytes \<Rightarrow> error + pyval" where
  "InMemoryStorage_get_val self key =
     (case map_of (mem_storage self) key of
        None \<Rightarrow> Inl KeyError
      | Some v \<Rightarrow> Inr v)"


definition InMemoryStorage_get_list :: "InMemoryStorage \<Rightarrow> bytes \<Rightarrow> pyval" where
  "InMemoryStorage_get_list self key =
     (case map_of (mem_storage self) key of
        None \<Rightarrow> PList []
      | Some v \<Rightarrow> v)"






section \<open>RedisStorage\<close>

text \<open>
  The literal \<^verbatim>\<open>seed\<close> of \<^verbatim>\<open>RedisStorage.__init__\<close>; \<^verbatim>\<open>LMDBStorage.__init__\<close> holds the
  same literal, character for character.
\<close>

definition seed :: bytes where
  "seed = ''[4.0, 36.0, 18.0, 2.0, 0.0, 0.0, 0.0, 0.0, 1.0, 18.0, 75.0, 84.0, 1.0, 1.0, 1.0, 0.0, 0.0, 0.0, 70.0, 144.0, 14.0, 15.0, 12.0, 1.0, 0.0, 0.0, 9.0, 24.0, 3.0, 3.0, 10.0, 2.0, 6.0, 81.0, 122.0, 2.0, 0.0, 0.0, 0.0, 0.0, 144.0, 144.0, 144.0, 50.0, 1.0, 4.0, 14.0, 17.0, 52.0, 9.0, 15.0, 49.0, 14.0, 81.0, 144.0, 40.0, 0.0, 0.0, 1.0, 6.0, 3.0, 15.0, 97.0, 55.0, 11.0, 16.0, 13.0, 0.0, 0.0, 0.0, 0.0, 3.0, 144.0, 100.0, 18.0, 0.0, 0.0, 0.0, 2.0, 98.0, 144.0, 12.0, 0.0, 0.0, 0.0, 11.0, 60.0, 50.0, 0.0, 0.0, 0.0, 0.0, 6.0, 9.0, 35.0, 20.0, 0.0, 0.0, 0.0, 0.0, 0.0, 0.0, 0.0, 0.0, 93.0, 24.0, 0.0, 0.0, 0.0, 0.0, 0.0, 24.0, 71.0, 36.0, 0.0, 0.0, 0.0, 0.0, 1.0, 6.0, 0.0, 0.0, 0.0, 0.0, 1.0, 2.0, 1.0, 0.0]''"

subsection \<open>The commands of the server\<close>

text \<open>
  \<^verbatim>\<open>KEYS pattern\<close>, \<^verbatim>\<open>SET\<close>, \<^verbatim>\<open>GET\<close> (None for a key that does not exist),
  \<^verbatim>\<open>RPUSH\<close> (creates the list), \<^verbatim>\<open>LRANGE key start stop\<close> (both ends included, a negative
  index counts from the end, an empty list for a key that does not exist).
\<close>

definition redis_keys :: "('c, 'd) env \<Rightarrow> redis_db \<Rightarrow> bytes \<Rightarrow> bytes list" where
  "redis_keys E db pattern = filter (redis_match E pattern) (map fst db)"

definition redis_set :: "redis_db \<Rightarrow> bytes \<Rightarrow> bytes \<Rightarrow> redis_db" where
  "redis_set db key val = AList.update key (RString val) db"

definition redis_get :: "redis_db \<Rightarrow> bytes \<Rightarrow> error + bytes option" where
  "redis_get db key =
     (case map_of db key of
        None \<Rightarrow> Inr None
      | Some (RString v) \<Rightarrow> Inr (Some v)
      | Some (RList xs) \<Rightarrow> Inl ResponseError)"

definition redis_rpush :: "redis_db \<Rightarrow> bytes \<Rightarrow> bytes \<Rightarrow> error + redis_db" where
  "redis_rpush db key val =
     (case map_of db key of
        None \<Rightarrow> Inr (AList.update key (RList [val]) db)
      | Some (RList xs) \<Rightarrow> Inr (AList.update key (RList (xs @ [val])) db)
      | Some (RString v) \<Rightarrow> Inl ResponseError)"

definition lrange :: "'a list \<Rightarrow> int \<Rightarrow> int \<Rightarrow> 'a list" where
  "lrange xs start stop =
     (let n = int (length xs);
          s = (if start < 0 then max 0 (n + start) else start);
          e = (if stop < 0 then n + stop else min stop (n - 1))
      in if s > e \<or> s \<ge> n then [] else take (nat (e - s + 1)) (drop (nat s) xs))"

definition redis_lrange :: "redis_db \<Rightarrow> bytes \<Rightarrow> int \<Rightarrow> int \<Rightarrow> error + bytes list" where
  "redis_lrange db key start stop =
     (case map_of db key of
        None \<Rightarrow> Inr []
      | Some (RList xs) \<Rightarrow> Inr (lrange xs start stop)
      | Some (RString v) \<Rightarrow> Inl ResponseError)"

subsection \<open>The class\<close>

text \<open>
  \<^verbatim>\<open>
  def __init__(self, config):
      if not redis:
          raise ImportError("redis-py is required to use Redis as storage.")
      self.name = 'redis'
      self.storage = redis.StrictRedis(**config)
      seed = "[4.0, 36.0, ...]"
      self.c = Compressor(seed)
  def keys(self, pattern="*"):     return self.storage.keys(pattern)
  def set_val(self, key, val):     self.storage.set(key, val)
  def get_val(self, key):          return self.storage.get(key)
  def append_val(self, key, val):
      cval = self.c.compress(json.dumps(val))
      self.storage.rpush(key, cval)
  def get_list(self, key):
      result = [self.c.decompress(r) for r in self.storage.lrange(key, 0, -1)]
      return result
  \<close>
  \<open>redis_storage\<close> is the content of the database the client talks to. A method returns the
  instance it leaves; when it raises, the instance is as it was.
\<close>

record ('c, 'd) RedisStorage =
  redis_name :: string
  redis_storage :: redis_db
  redis_c :: "('c, 'd) Compressor"

definition RedisStorage_init ::
    "('c, 'd) env \<Rightarrow> (bytes \<times> pyval) list \<Rightarrow> (error + ('c, 'd) RedisStorage) option" where
  "RedisStorage_init E config =
     (if \<not> redis_module E
      then Some (Inl (ImportError ''redis-py is required to use Redis as storage.''))
      else (case StrictRedis E config of
              Inl e \<Rightarrow> Some (Inl e)
            | Inr db \<Rightarrow>
                bind_result (Compressor_init E seed)
                  (\<lambda>c. Some (Inr \<lparr>redis_name = ''redis'', redis_storage = db, redis_c = c\<rparr>))))"

definition RedisStorage_keys ::
    "('c, 'd) env \<Rightarrow> ('c, 'd) RedisStorage \<Rightarrow> bytes \<Rightarrow> bytes list" where
  "RedisStorage_keys E self pattern = redis_keys E (redis_storage self) pattern"

definition RedisStorage_set_val ::
    "('c, 'd) RedisStorage \<Rightarrow> bytes \<Rightarrow> bytes \<Rightarrow> ('c, 'd) RedisStorage" where
  "RedisStorage_set_val self key val =
     self\<lparr>redis_storage := redis_set (redis_storage self) key val\<rparr>"

definition RedisStorage_get_val :: "('c, 'd) RedisStorage \<Rightarrow> bytes \<Rightarrow> error + pyval" where
  "RedisStorage_get_val self key =
     (case redis_get (redis_storage self) key of
        Inl e \<Rightarrow> Inl e
      | Inr None \<Rightarrow> Inr PNone
      | Inr (Some v) \<Rightarrow> Inr (PStr v))"

definition RedisStorage_append_val ::
    "('c, 'd) env \<Rightarrow> ('c, 'd) RedisStorage \<Rightarrow> bytes \<Rightarrow> pyval \<Rightarrow> error + ('c, 'd) RedisStorage" where
  "RedisStorage_append_val E self key val =
     (case json_dumps E val of
        Inl e \<Rightarrow> Inl e
      | Inr text \<Rightarrow>
          (let r = Compressor_compress E (redis_c self) text
           in case redis_rpush (redis_storage self) key (snd r) of
                Inl e \<Rightarrow> Inl e
              | Inr db \<Rightarrow> Inr (self\<lparr>redis_storage := db, redis_c := fst r\<rparr>)))"

text \<open>
  \<^verbatim>\<open>[self.c.decompress(r) for r in ...]\<close>, also the loop body of \<^verbatim>\<open>LMDBStorage.get_list\<close>:
  the entries are decompressed one after the other, and the first fault ends the call.
\<close>

fun decompress_each ::
    "('c, 'd) env \<Rightarrow> ('c, 'd) Compressor \<Rightarrow> bytes list
       \<Rightarrow> (error + ('c, 'd) Compressor \<times> bytes list) option" where
  "decompress_each E c [] = Some (Inr (c, []))"
| "decompress_each E c (r # rs) =
     bind_result (Compressor_decompress E c r)
       (\<lambda>r1. bind_result (decompress_each E (fst r1) rs)
          (\<lambda>r2. Some (Inr (fst r2, snd r1 # snd r2))))"

text \<open>The entries come back as \<^verbatim>\<open>str\<close> objects: the decompressed texts.\<close>

definition RedisStorage_get_list ::
    "('c, 'd) env \<Rightarrow> ('c, 'd) RedisStorage \<Rightarrow> bytes
       \<Rightarrow> (error + ('c, 'd) RedisStorage \<times> pyval list) option" where
  "RedisStorage_get_list E self key =
     (case redis_lrange (redis_storage self) key 0 (- 1) of
        Inl e \<Rightarrow> Some (Inl e)
      | Inr rs \<Rightarrow>
          bind_result (decompress_each E (redis_c self) rs)
            (\<lambda>r. Some (Inr (self\<lparr>redis_c := fst r\<rparr>, map PStr (snd r)))))"

section \<open>LMDBStorage\<close>

subsection \<open>The calls on the database\<close>

text \<open>
  \<^verbatim>\<open>txn.put(key, cval)\<close> in a write transaction: the item joins the key's sorted items
  unless the key has it already; a refused pair aborts the transaction.
  \<^verbatim>\<open>cursor.set_key(key)\<close> tells whether the key has items, and \<^verbatim>\<open>cursor.iternext_dup()\<close>
  yields them in the database's order.
\<close>

definition lmdb_items :: "lmdb_db \<Rightarrow> bytes \<Rightarrow> bytes list" where
  "lmdb_items db key = (case map_of db key of None \<Rightarrow> [] | Some vs \<Rightarrow> vs)"

definition lmdb_put :: "('c, 'd) env \<Rightarrow> lmdb_db \<Rightarrow> bytes \<Rightarrow> bytes \<Rightarrow> error + lmdb_db" where
  "lmdb_put E db key val =
     (if \<not> lmdb_put_ok E key val then Inl BadValsizeError
      else Inr (AList.update key (insort_insert val (lmdb_items db key)) db))"

definition lmdb_set_key :: "('c, 'd) env \<Rightarrow> lmdb_db \<Rightarrow> bytes \<Rightarrow> error + bool" where
  "lmdb_set_key E db key =
     (if \<not> lmdb_key_ok E key then Inl BadValsizeError
      else Inr (lmdb_items db key \<noteq> []))"

definition lmdb_iternext_dup :: "lmdb_db \<Rightarrow> bytes \<Rightarrow> bytes list" where
  "lmdb_iternext_dup db key = lmdb_items db key"

subsection \<open>The class\<close>

text \<open>
  \<^verbatim>\<open>
  def __init__(self, config):
      if not lmdb:
          raise ImportError("lmdb is required to use lmdb as storage.")
      self.name = 'lmdb'
      self.env = lmdb.open(config['path'], map_size=1048576 * 1024 * 1024, max_dbs=4)
      self.storage = self.env.open_db(config['db'], dupsort=True)
      seed = "[4.0, 36.0, ...]"
      self.c = Compressor(seed)
  def keys(self, pattern="*"):     raise NotImplementedError
  def set_val(self, key, val):     raise NotImplementedError
  def get_val(self, key):          raise NotImplementedError
  def append_val(self, key, val):
      cval = self.c.compress(json.dumps(val))
      with self.env.begin(write=True, db=self.storage) as txn:
          txn.put(key, cval)
  def get_list(self, key):
      result = []
      with self.env.begin(db=self.storage) as txn:
          cursor = txn.cursor()
          if cursor.set_key(key):
              for data in cursor.iternext_dup():
                  result.append(self.c.decompress(data))
      return result
  \<close>
  \<open>lmdb_env\<close> is the path of the environment, \<open>lmdb_storage\<close> the content of the database.
\<close>

record ('c, 'd) LMDBStorage =
  lmdb_name :: string
  lmdb_env :: pyval
  lmdb_storage :: lmdb_db
  lmdb_c :: "('c, 'd) Compressor"

definition LMDBStorage_init ::
    "('c, 'd) env \<Rightarrow> (bytes \<times> pyval) list \<Rightarrow> (error + ('c, 'd) LMDBStorage) option" where
  "LMDBStorage_init E config =
     (if \<not> lmdb_module E
      then Some (Inl (ImportError ''lmdb is required to use lmdb as storage.''))
      else (case map_of config ''path'' of
              None \<Rightarrow> Some (Inl KeyError)
            | Some path \<Rightarrow>
                (case lmdb_open E path of
                   Inl e \<Rightarrow> Some (Inl e)
                 | Inr open_db \<Rightarrow>
                     (case map_of config ''db'' of
                        None \<Rightarrow> Some (Inl KeyError)
                      | Some db \<Rightarrow>
                          (case open_db db of
                             Inl e \<Rightarrow> Some (Inl e)
                           | Inr content \<Rightarrow>
                               bind_result (Compressor_init E seed)
                                 (\<lambda>c. Some (Inr \<lparr>lmdb_name = ''lmdb'', lmdb_env = path,
                                                 lmdb_storage = content, lmdb_c = c\<rparr>)))))))"

definition LMDBStorage_keys :: "('c, 'd) LMDBStorage \<Rightarrow> bytes \<Rightarrow> error + bytes list" where
  "LMDBStorage_keys self pattern = Inl NotImplementedError"

definition LMDBStorage_set_val ::
    "('c, 'd) LMDBStorage \<Rightarrow> bytes \<Rightarrow> pyval \<Rightarrow> error + ('c, 'd) LMDBStorage" where
  "LMDBStorage_set_val self key val = Inl NotImplementedError"

definition LMDBStorage_get_val :: "('c, 'd) LMDBStorage \<Rightarrow> bytes \<Rightarrow> error + pyval" where
  "LMDBStorage_get_val self key = Inl NotImplementedError"

definition LMDBStorage_append_val ::
    "('c, 'd) env \<Rightarrow> ('c, 'd) LMDBStorage \<Rightarrow> bytes \<Rightarrow> pyval \<Rightarrow> error + ('c, 'd) LMDBStorage" where
  "LMDBStorage_append_val E self key val =
     (case json_dumps E val of
        Inl e \<Rightarrow> Inl e
      | Inr text \<Rightarrow>
          (let r = Compressor_compress E (lmdb_c self) text
           in case lmdb_put E (lmdb_storage self) key (snd r) of
                Inl e \<Rightarrow> Inl e
              | Inr db \<Rightarrow> Inr (self\<lparr>lmdb_storage := db, lmdb_c := fst r\<rparr>)))"

definition LMDBStorage_get_list ::
    "('c, 'd) env \<Rightarrow> ('c, 'd) LMDBStorage \<Rightarrow> bytes
       \<Rightarrow> (error + ('c, 'd) LMDBStorage \<times> pyval list) option" where
  "LMDBStorage_get_list E self key =
     (case lmdb_set_key E (lmdb_storage self) key of
        Inl e \<Rightarrow> Some (Inl e)
      | Inr found \<Rightarrow>
          (if found
           then bind_result
                  (decompress_each E (lmdb_c self) (lmdb_iternext_dup (lmdb_storage self) key))
                  (\<lambda>r. Some (Inr (self\<lparr>lmdb_c := fst r\<rparr>, map PStr (snd r))))
           else Some (Inr (self, []))))"

section \<open>The factory\<close>

text \<open>\<^verbatim>\<open>str(index)\<close> for an integer: its decimal digits, after a minus sign if negative.\<close>

function str_nat :: "nat \<Rightarrow> string" where
  "str_nat n =
     (if n < 10 then [char_of (48 + n)]
      else str_nat (n div 10) @ [char_of (48 + n mod 10)])"
  by pat_completeness auto
termination
  by (relation "measure (\<lambda>n. n)") auto

declare str_nat.simps [simp del]

definition str_int :: "int \<Rightarrow> string" where
  "str_int i = (if i < 0 then CHR ''-'' # str_nat (nat (- i)) else str_nat (nat i))"

text \<open>
  \<^verbatim>\<open>
  def storage(storage_config, index):
      if 'dict' in storage_config:
          return InMemoryStorage(storage_config['dict'])
      elif 'redis' in storage_config:
          storage_config['redis']['db'] = index
          return RedisStorage(storage_config['redis'])
      elif 'lmdb' in storage_config:
          storage_config['lmdb']['db'] = str(index)
          return LMDBStorage(storage_config['lmdb'])
      else:
          raise ValueError("Only in-memory dictionary and Redis are supported.")
  \<close>
  The descriptor is a dictionary of dictionaries. The assignment writes into the caller's
  object, so the function returns the descriptor as it leaves it, next to its result.
\<close>

datatype ('c, 'd) backend =
    InMemory InMemoryStorage
  | Redis "('c, 'd) RedisStorage"
  | LMDB "('c, 'd) LMDBStorage"

type_synonym storage_config = "(bytes \<times> (bytes \<times> pyval) list) list"

definition storage ::
    "('c, 'd) env \<Rightarrow> storage_config \<Rightarrow> int
       \<Rightarrow> storage_config \<times> (error + ('c, 'd) backend) option" where
  "storage E storage_config index =
     (case map_of storage_config ''dict'' of
        Some sub \<Rightarrow> (storage_config, Some (Inr (InMemory (InMemoryStorage_init sub))))
      | None \<Rightarrow>
          (case map_of storage_config ''redis'' of
             Some sub \<Rightarrow>
               (let sub' = AList.update ''db'' (PInt index) sub
                in (AList.update ''redis'' sub' storage_config,
                    bind_result (RedisStorage_init E sub') (\<lambda>b. Some (Inr (Redis b)))))
           | None \<Rightarrow>
               (case map_of storage_config ''lmdb'' of
                  Some sub \<Rightarrow>
                    (let sub' = AList.update ''db'' (PStr (str_int index)) sub
                     in (AList.update ''lmdb'' sub' storage_config,
                         bind_result (LMDBStorage_init E sub') (\<lambda>b. Some (Inr (LMDB b)))))
                | None \<Rightarrow>
                    (storage_config,
                     Some (Inl (ValueError
                       ''Only in-memory dictionary and Redis are supported.''))))))"

section \<open>Scenarios and an environment to evaluate them in\<close>

text \<open>The bytes the seed step of \<^verbatim>\<open>Compressor.__init__\<close> emits, and the object it leaves.\<close>

definition primed :: "('c, 'd) env \<Rightarrow> bytes \<Rightarrow> 'c \<times> bytes" where
  "primed E sd = zlib_run E (zlib_compressobj E 9) [Feed sd, Flush Z_SYNC_FLUSH]"

text \<open>A caller appends values under one key, one call after the other, then reads the list.\<close>

fun redis_appends ::
    "('c, 'd) env \<Rightarrow> ('c, 'd) RedisStorage \<Rightarrow> bytes \<Rightarrow> pyval list
       \<Rightarrow> error + ('c, 'd) RedisStorage" where
  "redis_appends E self key [] = Inr self"
| "redis_appends E self key (v # vs) =
     (case RedisStorage_append_val E self key v of
        Inl e \<Rightarrow> Inl e
      | Inr self' \<Rightarrow> redis_appends E self' key vs)"

definition redis_appends_then_get ::
    "('c, 'd) env \<Rightarrow> ('c, 'd) RedisStorage \<Rightarrow> bytes \<Rightarrow> pyval list
       \<Rightarrow> (error + pyval list) option" where
  "redis_appends_then_get E self key vs =
     (case redis_appends E self key vs of
        Inl e \<Rightarrow> Some (Inl e)
      | Inr self' \<Rightarrow>
          bind_result (RedisStorage_get_list E self' key) (\<lambda>r. Some (Inr (snd r))))"

fun lmdb_appends ::
    "('c, 'd) env \<Rightarrow> ('c, 'd) LMDBStorage \<Rightarrow> bytes \<Rightarrow> pyval list
       \<Rightarrow> error + ('c, 'd) LMDBStorage" where
  "lmdb_appends E self key [] = Inr self"
| "lmdb_appends E self key (v # vs) =
     (case LMDBStorage_append_val E self key v of
        Inl e \<Rightarrow> Inl e
      | Inr self' \<Rightarrow> lmdb_appends E self' key vs)"

definition lmdb_appends_then_get ::
    "('c, 'd) env \<Rightarrow> ('c, 'd) LMDBStorage \<Rightarrow> bytes \<Rightarrow> pyval list
       \<Rightarrow> (error + pyval list) option" where
  "lmdb_appends_then_get E self key vs =
     (case lmdb_appends E self key vs of
        Inl e \<Rightarrow> Some (Inl e)
      | Inr self' \<Rightarrow>
          bind_result (LMDBStorage_get_list E self' key) (\<lambda>r. Some (Inr (snd r))))"

text \<open>
  An environment for evaluating the module on concrete inputs. Its codec keeps what it is
  fed until a flush and emits it as it is; its serializer writes JSON for values whose
  strings need no escaping, with the separators \<^verbatim>\<open>json.dumps\<close> uses by default; both client
  libraries are installed and open empty databases; lmdb takes keys of 1 to 511 bytes and
  data items of at most 511 bytes.
\<close>

fun join :: "bytes \<Rightarrow> bytes list \<Rightarrow> bytes" where
  "join sep [] = []"
| "join sep [x] = x"
| "join sep (x # y # rest) = x @ sep @ join sep (y # rest)"

fun example_dumps :: "pyval \<Rightarrow> bytes" where
  "example_dumps PNone = ''null''"
| "example_dumps (PBool b) = (if b then ''true'' else ''false'')"
| "example_dumps (PInt i) = str_int i"
| "example_dumps (PStr s) = CHR 0x22 # s @ [CHR 0x22]"
| "example_dumps (PList xs) = ''['' @ join '', '' (map example_dumps xs) @ '']''"
| "example_dumps (PDict kvs) =
     ''{'' @ join '', ''
              (map (\<lambda>kv. CHR 0x22 # fst kv @ [CHR 0x22] @ '': '' @ example_dumps (snd kv)) kvs)
       @ ''}''"

definition example_env :: "(bytes, unit) env" where
  "example_env =
     \<lparr>zlib_compressobj = (\<lambda>level. []),
      zlib_compress = (\<lambda>c x. (c @ x, [])),
      zlib_flush = (\<lambda>c m. ([], c)),
      zlib_decompressobj = (),
      zlib_decompress = (\<lambda>d x. Inr (d, x)),
      zlib_unconsumed_tail = (\<lambda>d. []),
      json_dumps = (\<lambda>v. Inr (example_dumps v)),
      redis_module = True,
      lmdb_module = True,
      StrictRedis = (\<lambda>kwargs. Inr []),
      redis_match = (\<lambda>pattern key. pattern = ''*'' \<or> pattern = key),
      lmdb_open = (\<lambda>path. Inr (\<lambda>name. Inr [])),
      lmdb_key_ok = (\<lambda>key. key \<noteq> []),
      lmdb_put_ok = (\<lambda>key data. key \<noteq> [] \<and> length key \<le> 511 \<and> length data \<le> 511)\<rparr>"

text \<open>What the constructors build in that environment.\<close>

definition example_compressor :: "(bytes, unit) Compressor" where
  "example_compressor = \<lparr>c_context = [], d_context = ()\<rparr>"

definition example_redis :: "(bytes, unit) RedisStorage" where
  "example_redis =
     \<lparr>redis_name = ''redis'', redis_storage = [], redis_c = example_compressor\<rparr>"

definition example_lmdb :: "(bytes, unit) LMDBStorage" where
  "example_lmdb =
     \<lparr>lmdb_name = ''lmdb'', lmdb_env = PStr ''/tmp/testlmdb'', lmdb_storage = [],
      lmdb_c = example_compressor\<rparr>"

text \<open>The value of the spec's network scenario: \<^verbatim>\<open>{"id": "a", "vec": [1, 2, 3]}\<close>.\<close>

definition example_value :: pyval where
  "example_value = PDict [(''id'', PStr ''a''), (''vec'', PList [PInt 1, PInt 2, PInt 3])]"

section \<open>Helper lemmas\<close>

subsection \<open>The compressor\<close>

lemma drain_done: "zlib_unconsumed_tail E d = [] \<Longrightarrow> drain E d t = Some (Inr (d, t))"
  by (subst drain.simps) simp

lemma zlib_ok_tail:
  "zlib_ok E \<Longrightarrow> zlib_decompress E d x = Inr (d', out) \<Longrightarrow> zlib_unconsumed_tail E d' = []"
  unfolding zlib_ok_def by blast

lemma zlib_ok_split:
  "zlib_ok E \<Longrightarrow> zlib_decompress E d (a @ b) =
            (case zlib_decompress E d a of
               Inl e \<Rightarrow> Inl e
             | Inr r1 \<Rightarrow>
                 (case zlib_decompress E (fst r1) b of
                    Inl e \<Rightarrow> Inl e
                  | Inr r2 \<Rightarrow> Inr (fst r2, snd r1 @ snd r2)))"
  unfolding zlib_ok_def by blast

lemma zlib_ok_flushed:
  "zlib_ok E \<Longrightarrow> flushed calls \<Longrightarrow>
     \<exists>d'. zlib_decompress E (zlib_decompressobj E)
                     (snd (zlib_run E (zlib_compressobj E level) calls))
                   = Inr (d', fed calls)"
  unfolding zlib_ok_def by blast

lemma init_ok:
  assumes ok: "zlib_ok E"
  shows "\<exists>d1. zlib_decompress E (zlib_decompressobj E) (snd (primed E sd)) = Inr (d1, sd)
          \<and> Compressor_init E sd
              = Some (Inr \<lparr>c_context = fst (primed E sd), d_context = d1\<rparr>)"
proof -
  have fl: "flushed [Feed sd, Flush Z_SYNC_FLUSH]"
    by (simp add: flushed_def)
  from zlib_ok_flushed [OF ok fl, of 9]
  obtain d1 where d1: "zlib_decompress E (zlib_decompressobj E) (snd (primed E sd)) = Inr (d1, sd)"
    by (auto simp: primed_def)
  have "zlib_unconsumed_tail E d1 = []"
    using zlib_ok_tail [OF ok d1] .
  then have "drain E d1 [] = Some (Inr (d1, []))"
    by (rule drain_done)
  with d1 have "Compressor_init E sd
              = Some (Inr \<lparr>c_context = fst (primed E sd), d_context = d1\<rparr>)"
    by (simp add: Compressor_init_def Let_def zcopy_def bind_result_def primed_def)
  with d1 show ?thesis by blast
qed

lemma compress_self: "fst (Compressor_compress E self text) = self"
  by (simp add: Compressor_compress_def Let_def)

lemma roundtrip_aux:
  assumes ok: "zlib_ok E"
    and d1: "zlib_decompress E (zlib_decompressobj E) (snd (primed E sd)) = Inr (d1, sd)"
    and self: "self = \<lparr>c_context = fst (primed E sd), d_context = d1\<rparr>"
  shows "Compressor_decompress E self (snd (Compressor_compress E self t)) = Some (Inr (self, t))"
proof -
  define ct where "ct = snd (Compressor_compress E self t)"
  have fl: "flushed [Feed sd, Flush Z_SYNC_FLUSH, Feed t, Flush Z_FINISH]"
    by (simp add: flushed_def)
  have run: "snd (zlib_run E (zlib_compressobj E 9) [Feed sd, Flush Z_SYNC_FLUSH, Feed t, Flush Z_FINISH])
               = snd (primed E sd) @ ct"
    by (simp add: ct_def primed_def Compressor_compress_def Let_def zcopy_def self)
  from zlib_ok_flushed [OF ok fl, of 9] run
  obtain d' where whole:
      "zlib_decompress E (zlib_decompressobj E) (snd (primed E sd) @ ct) = Inr (d', sd @ t)"
    by auto
  have "zlib_decompress E (zlib_decompressobj E) (snd (primed E sd) @ ct)
          = (case zlib_decompress E d1 ct of
               Inl e \<Rightarrow> Inl e
             | Inr r2 \<Rightarrow> Inr (fst r2, sd @ snd r2))"
    by (simp add: zlib_ok_split [OF ok] d1 split: sum.splits)
  with whole obtain d2 where d2: "zlib_decompress E d1 ct = Inr (d2, t)"
    by (auto split: sum.splits)
  have "zlib_unconsumed_tail E d2 = []"
    using zlib_ok_tail [OF ok d2] .
  then have "drain E d2 t = Some (Inr (d2, t))"
    by (rule drain_done)
  with d2 have "Compressor_decompress E self ct = Some (Inr (self, t))"
    by (simp add: Compressor_decompress_def Let_def zcopy_def bind_result_def self)
  then show ?thesis
    by (simp only: ct_def)
qed

lemma init_roundtrip:
  assumes ok: "zlib_ok E" and init: "Compressor_init E sd = Some (Inr self)"
  shows "Compressor_compress E self t = (self, snd (Compressor_compress E self t))"
    and "Compressor_decompress E self (snd (Compressor_compress E self t)) = Some (Inr (self, t))"
proof -
  from init_ok [OF ok, of sd] init obtain d1 where
      d1: "zlib_decompress E (zlib_decompressobj E) (snd (primed E sd)) = Inr (d1, sd)"
    and self: "self = \<lparr>c_context = fst (primed E sd), d_context = d1\<rparr>"
    by auto
  show "Compressor_compress E self t = (self, snd (Compressor_compress E self t))"
    using compress_self [of E self t] by (cases "Compressor_compress E self t") simp
  show "Compressor_decompress E self (snd (Compressor_compress E self t)) = Some (Inr (self, t))"
    using roundtrip_aux [OF ok d1 self] .
qed

subsection \<open>The evaluation environment obeys the laws of zlib\<close>

lemma example_run_pending:
  "snd (zlib_run example_env c calls) @ fst (zlib_run example_env c calls) = c @ fed calls"
  by (induction example_env c calls rule: zlib_run.induct)
     (simp_all add: Let_def example_env_def)

lemma example_run_flush:
  "fst (zlib_run example_env c (calls @ [Flush m])) = []"
  by (induction example_env c calls rule: zlib_run.induct)
     (simp_all add: Let_def example_env_def)

lemma flushed_ends: "flushed calls \<Longrightarrow> \<exists>before m. calls = before @ [Flush m]"
proof -
  assume "flushed calls"
  then obtain m before where "rev calls = Flush m # before"
    by (auto simp: flushed_def split: list.splits zcall.splits)
  then have "calls = rev before @ [Flush m]"
    by (simp add: rev_eq_Cons_iff)
  then show ?thesis by blast
qed

lemma example_env_ok: "zlib_ok example_env"
proof -
  have "snd (zlib_run example_env [] calls) = fed calls" if "flushed calls" for calls
  proof -
    from flushed_ends [OF that] obtain before m where "calls = before @ [Flush m]" by blast
    with example_run_flush [of "[]" before m] have "fst (zlib_run example_env [] calls) = []"
      by simp
    with example_run_pending [of "[]" calls] show ?thesis by simp
  qed
  then show ?thesis
    by (simp add: zlib_ok_def) (simp add: example_env_def)
qed

lemma example_init: "Compressor_init example_env sd = Some (Inr example_compressor)"
proof -
  have "drain example_env () [] = Some (Inr ((), []))"
    by (rule drain_done) (simp add: example_env_def)
  then show ?thesis
    by (simp add: Compressor_init_def Let_def zcopy_def bind_result_def example_compressor_def
        example_env_def)
qed

lemma example_compress: "Compressor_compress example_env example_compressor t = (example_compressor, t)"
  by (simp add: Compressor_compress_def Let_def zcopy_def example_compressor_def example_env_def)

subsection \<open>The in-memory backend\<close>









subsection \<open>The persistent backends\<close>

lemma lrange_all: "lrange xs 0 (- 1) = xs"
  by (cases xs) (simp_all add: lrange_def Let_def)

lemma decompress_each_compressed:
  assumes ok: "zlib_ok E" and init: "Compressor_init E sd = Some (Inr self)"
  shows "decompress_each E self (map (\<lambda>t. snd (Compressor_compress E self t)) ts)
           = Some (Inr (self, ts))"
  by (induction ts) (simp_all add: init_roundtrip(2) [OF ok init] bind_result_def)

lemma str_nat_digit: "n < 10 \<Longrightarrow> str_nat n = [char_of (48 + n)]"
  by (subst str_nat.simps) simp

lemma example_decompress:
  "Compressor_decompress example_env example_compressor t = Some (Inr (example_compressor, t))"
  using init_roundtrip(2) [OF example_env_ok example_init [of seed], where t = t]
    example_compress [of t]
  by simp

lemma example_env_fields:
  "redis_module example_env"
  "lmdb_module example_env"
  "StrictRedis example_env kwargs = Inr []"
  "redis_match example_env pattern key = (pattern = ''*'' \<or> pattern = key)"
  "lmdb_open example_env path = Inr (\<lambda>name. Inr [])"
  "json_dumps example_env v = Inr (example_dumps v)"
  "lmdb_key_ok example_env key = (key \<noteq> [])"
  "lmdb_put_ok example_env key data = (key \<noteq> [] \<and> length key \<le> 511 \<and> length data \<le> 511)"
  by (simp_all add: example_env_def)

lemma digit_chars:
  "char_of (48 :: nat) = CHR ''0''" "char_of (49 :: nat) = CHR ''1''"
  "char_of (50 :: nat) = CHR ''2''" "char_of (51 :: nat) = CHR ''3''"
  by (simp_all add: char_of_def bit_0)

lemma example_redis_init: "RedisStorage_init example_env config = Some (Inr example_redis)"
  by (simp add: RedisStorage_init_def example_init bind_result_def example_redis_def
      example_env_fields)

lemma example_lmdb_init:
  "LMDBStorage_init example_env [(''path'', PStr ''/tmp/testlmdb''), (''db'', PStr ''0'')]
     = Some (Inr example_lmdb)"
  by (simp add: LMDBStorage_init_def example_init bind_result_def example_lmdb_def
      example_env_fields)

lemma example_value_dumps:
  "example_dumps example_value
     = [CHR ''{'', CHR 0x22, CHR ''i'', CHR ''d'', CHR 0x22, CHR '':'', CHR '' '',
        CHR 0x22, CHR ''a'', CHR 0x22, CHR '','', CHR '' '', CHR 0x22, CHR ''v'',
        CHR ''e'', CHR ''c'', CHR 0x22, CHR '':'', CHR '' '', CHR ''['',
        CHR ''1'', CHR '','', CHR '' '', CHR ''2'', CHR '','', CHR '' '',
        CHR ''3'', CHR '']'', CHR ''}'']"
  by (simp add: example_value_def str_int_def str_nat_digit digit_chars)

lemma redis_append_fresh:
  assumes "json_dumps E v = Inr text" and "map_of (redis_storage self) key = None"
  shows "RedisStorage_append_val E self key v
           = Inr (self\<lparr>redis_storage :=
                    AList.update key (RList [snd (Compressor_compress E (redis_c self) text)])
                      (redis_storage self),
                  redis_c := fst (Compressor_compress E (redis_c self) text)\<rparr>)"
  using assms by (simp add: RedisStorage_append_val_def Let_def redis_rpush_def)

lemma example_redis_scenario:
  "redis_appends_then_get example_env example_redis key [v] = Some (Inr [PStr (example_dumps v)])"
proof -
  have "json_dumps example_env v = Inr (example_dumps v)"
    by (simp add: example_env_fields)
  then show ?thesis
    by (simp add: redis_appends_then_get_def RedisStorage_append_val_def Let_def
        example_redis_def example_compress redis_rpush_def RedisStorage_get_list_def
        redis_lrange_def lrange_all example_decompress bind_result_def)
qed

lemma lmdb_append_ok:
  assumes "json_dumps E v = Inr js"
    and "lmdb_put_ok E key (snd (Compressor_compress E (lmdb_c self) js))"
  shows "LMDBStorage_append_val E self key v
           = Inr (self\<lparr>lmdb_storage :=
                    AList.update key
                      (insort_insert (snd (Compressor_compress E (lmdb_c self) js))
                         (lmdb_items (lmdb_storage self) key))
                      (lmdb_storage self)\<rparr>)"
  using assms compress_self [of E "lmdb_c self" js]
  by (simp add: LMDBStorage_append_val_def Let_def lmdb_put_def)

lemma lmdb_items_update: "lmdb_items (AList.update key vs db) key = vs"
  by (simp add: lmdb_items_def update_conv')

lemma lmdb_two_values:
  assumes ok: "zlib_ok E"
    and init: "Compressor_init E seed = Some (Inr (lmdb_c self))"
    and dumps: "json_dumps E v = Inr t1" "json_dumps E w = Inr t2"
    and fresh: "lmdb_items (lmdb_storage self) key = []"
    and put_ok: "lmdb_put_ok E key (snd (Compressor_compress E (lmdb_c self) t1))"
      "lmdb_put_ok E key (snd (Compressor_compress E (lmdb_c self) t2))"
    and key_ok: "lmdb_key_ok E key"
    and differ: "snd (Compressor_compress E (lmdb_c self) t1)
                   \<noteq> snd (Compressor_compress E (lmdb_c self) t2)"
  shows "lmdb_appends_then_get E self key [v, w]
           = Some (Inr (if snd (Compressor_compress E (lmdb_c self) t2)
                            < snd (Compressor_compress E (lmdb_c self) t1)
                        then [PStr t2, PStr t1] else [PStr t1, PStr t2]))"
proof -
  define c1 where "c1 = snd (Compressor_compress E (lmdb_c self) t1)"
  define c2 where "c2 = snd (Compressor_compress E (lmdb_c self) t2)"
  define s1 where "s1 = self\<lparr>lmdb_storage := AList.update key [c1] (lmdb_storage self)\<rparr>"
  define both where "both = (if c2 < c1 then [c2, c1] else [c1, c2])"
  define s2 where "s2 = s1\<lparr>lmdb_storage := AList.update key both (lmdb_storage s1)\<rparr>"
  have a1: "LMDBStorage_append_val E self key v = Inr s1"
    using lmdb_append_ok [OF dumps(1) put_ok(1)] fresh
    by (simp add: s1_def c1_def insort_insert_key_def)
  have cs1: "lmdb_c s1 = lmdb_c self" and cs2: "lmdb_c s2 = lmdb_c self"
    by (simp_all add: s1_def s2_def)
  have items: "lmdb_items (lmdb_storage s1) key = [c1]"
    by (simp add: s1_def lmdb_items_update)
  have ins: "insort_insert c2 [c1] = both"
    using differ by (auto simp: insort_insert_key_def both_def c1_def c2_def)
  have a2: "LMDBStorage_append_val E s1 key w = Inr s2"
    using lmdb_append_ok [of E w t2 key s1] dumps(2) put_ok(2) ins
    by (simp add: cs1 items s2_def flip: c2_def)
  have items2: "lmdb_items (lmdb_storage s2) key = both"
    by (simp add: s2_def lmdb_items_update)
  have "decompress_each E (lmdb_c s2) both
          = Some (Inr (lmdb_c s2, if c2 < c1 then [t2, t1] else [t1, t2]))"
    using decompress_each_compressed [OF ok init, of "[t2, t1]"]
      decompress_each_compressed [OF ok init, of "[t1, t2]"]
    by (simp add: cs2 both_def c1_def c2_def)
  then have "LMDBStorage_get_list E s2 key
               = Some (Inr (s2, if c2 < c1 then [PStr t2, PStr t1] else [PStr t1, PStr t2]))"
    using key_ok items2
    by (simp add: LMDBStorage_get_list_def lmdb_set_key_def lmdb_iternext_dup_def
        bind_result_def both_def)
  with a1 a2 show ?thesis
    by (simp add: lmdb_appends_then_get_def bind_result_def c1_def c2_def)
qed


section \<open>The claims\<close>

text \<open>
  C1. Under the laws of zlib, \<^verbatim>\<open>Compressor(seed)\<close> returns an instance for every seed, and
  on that instance \<^verbatim>\<open>decompress(compress(t))\<close> returns \<open>t\<close> for every text \<open>t\<close>;
  both calls leave the instance as it was.
\<close>

theorem compress_decompress_roundtrip:
  assumes "zlib_ok E"
  shows "\<exists>self. Compressor_init E sd = Some (Inr self)
           \<and> (\<forall>t. \<exists>ctext. Compressor_compress E self t = (self, ctext)
                   \<and> Compressor_decompress E self ctext = Some (Inr (self, t)))"
proof -
  from init_ok [OF assms, of sd] obtain self where init: "Compressor_init E sd = Some (Inr self)"
    by blast
  from init_roundtrip [OF assms init] have
    "\<exists>ctext. Compressor_compress E self t = (self, ctext)
          \<and> Compressor_decompress E self ctext = Some (Inr (self, t))" for t
    by blast
  with init show ?thesis by blast
qed

theorem compress_decompress_roundtrip_witness:
  "zlib_ok example_env
   \<and> Compressor_init example_env seed = Some (Inr example_compressor)
   \<and> Compressor_compress example_env example_compressor ''[1, 2]''
       = (example_compressor, ''[1, 2]'')
   \<and> Compressor_decompress example_env example_compressor ''[1, 2]''
       = Some (Inr (example_compressor, ''[1, 2]''))"
proof -
  from compress_decompress_roundtrip [OF example_env_ok, of seed]
  obtain self where init: "Compressor_init example_env seed = Some (Inr self)"
    and rt: "\<forall>t. \<exists>ctext. Compressor_compress example_env self t = (self, ctext)
               \<and> Compressor_decompress example_env self ctext = Some (Inr (self, t))"
    by blast
  from init example_init [of seed] have self: "self = example_compressor"
    by simp
  from rt obtain ctext where
      "Compressor_compress example_env self ''[1, 2]'' = (self, ctext)"
      "Compressor_decompress example_env self ctext = Some (Inr (self, ''[1, 2]''))"
    by blast
  with self example_compress [of "''[1, 2]''"] example_env_ok example_init [of seed]
  show ?thesis by simp
qed

text \<open>
  C2, as the code has it. On the network backend, after \<^verbatim>\<open>append_val(key, v)\<close> on a key the
  database does not hold, \<^verbatim>\<open>get_list(key)\<close> returns one entry, and the entry is the text
  \<^verbatim>\<open>json.dumps(v)\<close>: the module decompresses what it reads and never parses it.
\<close>

theorem redis_append_then_get_text:
  assumes ok: "zlib_ok E"
    and init: "Compressor_init E seed = Some (Inr (redis_c self))"
    and dumps: "json_dumps E v = Inr text"
    and fresh: "map_of (redis_storage self) key = None"
  shows "redis_appends_then_get E self key [v] = Some (Inr [PStr text])"
proof -
  define ctext where "ctext = snd (Compressor_compress E (redis_c self) text)"
  define self' where
    "self' = self\<lparr>redis_storage := AList.update key (RList [ctext]) (redis_storage self)\<rparr>"
  have app: "RedisStorage_append_val E self key v = Inr self'"
    using redis_append_fresh [OF dumps fresh] compress_self [of E "redis_c self" "text"]
    by (simp add: self'_def ctext_def)
  have "redis_lrange (redis_storage self') key 0 (- 1) = Inr [ctext]"
    by (simp add: self'_def redis_lrange_def update_conv' lrange_all)
  moreover have "decompress_each E (redis_c self') [ctext] = Some (Inr (redis_c self', [text]))"
    using decompress_each_compressed [OF ok init, of "[text]"]
    by (simp add: self'_def ctext_def)
  ultimately have "RedisStorage_get_list E self' key = Some (Inr (self', [PStr text]))"
    by (simp add: RedisStorage_get_list_def bind_result_def)
  with app show ?thesis
    by (simp add: redis_appends_then_get_def bind_result_def)
qed

theorem redis_append_then_get_text_witness:
  "zlib_ok example_env
   \<and> Compressor_init example_env seed = Some (Inr (redis_c example_redis))
   \<and> json_dumps example_env example_value = Inr (example_dumps example_value)
   \<and> map_of (redis_storage example_redis) ''bucket1'' = None
   \<and> redis_appends_then_get example_env example_redis ''bucket1'' [example_value]
       = Some (Inr [PStr (example_dumps example_value)])"
proof -
  have init: "Compressor_init example_env seed = Some (Inr (redis_c example_redis))"
    by (simp add: example_init example_redis_def)
  have dumps: "json_dumps example_env example_value = Inr (example_dumps example_value)"
    by (simp add: example_env_fields)
  have fresh: "map_of (redis_storage example_redis) ''bucket1'' = None"
    by (simp add: example_redis_def)
  from redis_append_then_get_text [OF example_env_ok init dumps fresh]
    example_env_ok init dumps fresh
  show ?thesis by simp
qed

text \<open>
  C2 as stated fails: for the map of the spec's scenario the entry returned is a string, not
  the map.
\<close>

theorem redis_get_list_returns_text:
  "RedisStorage_init example_env [] = Some (Inr example_redis)
   \<and> redis_appends_then_get example_env example_redis ''bucket1'' [example_value]
       = Some (Inr [PStr
            [CHR ''{'', CHR 0x22, CHR ''i'', CHR ''d'', CHR 0x22, CHR '':'', CHR '' '',
             CHR 0x22, CHR ''a'', CHR 0x22, CHR '','', CHR '' '', CHR 0x22, CHR ''v'',
             CHR ''e'', CHR ''c'', CHR 0x22, CHR '':'', CHR '' '', CHR ''['',
             CHR ''1'', CHR '','', CHR '' '', CHR ''2'', CHR '','', CHR '' '',
             CHR ''3'', CHR '']'', CHR ''}'']])
   \<and> redis_appends_then_get example_env example_redis ''bucket1'' [example_value]
       \<noteq> Some (Inr [example_value])"
  by (simp add: example_redis_init example_redis_scenario example_value_dumps)
     (simp add: example_value_def)




text \<open>
  C4, as the code has it. For a key that is not present, \<^verbatim>\<open>get_val\<close> raises KeyError on the
  in-memory backend, returns \<^verbatim>\<open>None\<close> on the network backend, and raises
  NotImplementedError on the embedded backend (there for every key).
\<close>

theorem get_val_absent_key:
  assumes "map_of (mem_storage m) key = None"
    and "map_of (redis_storage r) key = None"
  shows "InMemoryStorage_get_val m key = Inl KeyError
         \<and> RedisStorage_get_val r key = Inr PNone
         \<and> LMDBStorage_get_val l key = Inl NotImplementedError"
  using assms
  by (simp add: InMemoryStorage_get_val_def RedisStorage_get_val_def redis_get_def
      LMDBStorage_get_val_def)

theorem get_val_absent_key_witness:
  "map_of (mem_storage (InMemoryStorage_init [])) ''k'' = None
   \<and> map_of (redis_storage example_redis) ''k'' = None
   \<and> InMemoryStorage_get_val (InMemoryStorage_init []) ''k'' = Inl KeyError
   \<and> RedisStorage_get_val example_redis ''k'' = Inr PNone
   \<and> LMDBStorage_get_val example_lmdb ''k'' = Inl NotImplementedError"
proof -
  have a: "map_of (mem_storage (InMemoryStorage_init [])) ''k'' = None"
    by (simp add: InMemoryStorage_init_def)
  have b: "map_of (redis_storage example_redis) ''k'' = None"
    by (simp add: example_redis_def)
  from get_val_absent_key [OF a b, where l = example_lmdb] a b show ?thesis by simp
qed

text \<open>C4 as stated fails: the three results differ pairwise.\<close>

theorem get_val_differs:
  "InMemoryStorage_get_val (InMemoryStorage_init []) ''k''
     \<noteq> RedisStorage_get_val example_redis ''k''
   \<and> InMemoryStorage_get_val (InMemoryStorage_init []) ''k''
     \<noteq> LMDBStorage_get_val example_lmdb ''k''
   \<and> RedisStorage_get_val example_redis ''k''
     \<noteq> LMDBStorage_get_val example_lmdb ''k''"
  by (simp add: InMemoryStorage_get_val_def InMemoryStorage_init_def RedisStorage_get_val_def
      redis_get_def example_redis_def LMDBStorage_get_val_def)

text \<open>
  C5, as the code has it. \<^verbatim>\<open>keys()\<close> enumerates the stored keys on the in-memory backend and,
  with the default pattern, on the network backend; on the embedded backend it raises
  NotImplementedError.
\<close>

theorem keys_per_backend:
  assumes "\<forall>key. redis_match E ''*'' key"
  shows "set (InMemoryStorage_keys m) = dom (map_of (mem_storage m))
         \<and> set (RedisStorage_keys E r ''*'') = dom (map_of (redis_storage r))
         \<and> LMDBStorage_keys l pattern = Inl NotImplementedError"
  using assms
  by (simp add: InMemoryStorage_keys_def RedisStorage_keys_def redis_keys_def
      LMDBStorage_keys_def dom_map_of_conv_image_fst)

theorem keys_per_backend_witness:
  "(\<forall>key. redis_match example_env ''*'' key)
   \<and> set (InMemoryStorage_keys (InMemoryStorage_set_val (InMemoryStorage_init []) ''k'' PNone))
       = {''k''}
   \<and> set (RedisStorage_keys example_env (RedisStorage_set_val example_redis ''a'' ''b'') ''*'')
       = {''a''}
   \<and> LMDBStorage_keys example_lmdb ''*'' = Inl NotImplementedError"
proof -
  have m: "\<forall>key. redis_match example_env ''*'' key"
    by (simp add: example_env_fields)
  from keys_per_backend [OF m,
      where m = "InMemoryStorage_set_val (InMemoryStorage_init []) ''k'' PNone"
        and r = "RedisStorage_set_val example_redis ''a'' ''b''"
        and l = example_lmdb and pattern = "''*''"] m
  show ?thesis
    by (simp add: InMemoryStorage_set_val_def InMemoryStorage_init_def RedisStorage_set_val_def
        redis_set_def example_redis_def)
qed

text \<open>C5 as stated fails: \<^verbatim>\<open>keys()\<close> on the embedded backend faults.\<close>

theorem lmdb_keys_faults:
  "LMDBStorage_keys example_lmdb ''*'' = Inl NotImplementedError"
  by (simp add: LMDBStorage_keys_def)




text \<open>
  C7, as the code has it. For a key that is not present in the storage, \<^verbatim>\<open>get_list\<close>
  returns an empty list on each of the three backends (on lmdb, for a key a cursor may be
  positioned on).
\<close>

theorem get_list_absent_key:
  assumes "map_of (mem_storage m) key = None"
    and "map_of (redis_storage r) key = None"
    and "lmdb_items (lmdb_storage l) key = []"
    and "lmdb_key_ok E key"
  shows "InMemoryStorage_get_list m key = PList []
         \<and> RedisStorage_get_list E r key = Some (Inr (r, []))
         \<and> LMDBStorage_get_list E l key = Some (Inr (l, []))"
  using assms
  by (simp add: InMemoryStorage_get_list_def RedisStorage_get_list_def redis_lrange_def
      bind_result_def LMDBStorage_get_list_def lmdb_set_key_def)

theorem get_list_absent_key_witness:
  "map_of (mem_storage (InMemoryStorage_init [])) ''k'' = None
   \<and> map_of (redis_storage example_redis) ''k'' = None
   \<and> lmdb_items (lmdb_storage example_lmdb) ''k'' = []
   \<and> lmdb_key_ok example_env ''k''
   \<and> InMemoryStorage_get_list (InMemoryStorage_init []) ''k'' = PList []
   \<and> RedisStorage_get_list example_env example_redis ''k'' = Some (Inr (example_redis, []))
   \<and> LMDBStorage_get_list example_env example_lmdb ''k'' = Some (Inr (example_lmdb, []))"
proof -
  have a: "map_of (mem_storage (InMemoryStorage_init [])) ''k'' = None"
    by (simp add: InMemoryStorage_init_def)
  have b: "map_of (redis_storage example_redis) ''k'' = None"
    by (simp add: example_redis_def)
  have c: "lmdb_items (lmdb_storage example_lmdb) ''k'' = []"
    by (simp add: example_lmdb_def lmdb_items_def)
  have d: "lmdb_key_ok example_env ''k''"
    by (simp add: example_env_fields)
  from get_list_absent_key [OF a b c d] a b c d show ?thesis by simp
qed

text \<open>
  C7 as stated fails: a key that was never appended to, but written by \<^verbatim>\<open>set_val\<close>, is in
  the dictionary \<^verbatim>\<open>get_list\<close> reads, and \<^verbatim>\<open>get_list\<close> returns the value stored.
\<close>

theorem get_list_after_set_val:
  "InMemoryStorage_get_list
     (InMemoryStorage_set_val (InMemoryStorage_init []) ''k'' (PStr ''x'')) ''k'' = PStr ''x''
   \<and> InMemoryStorage_get_list
     (InMemoryStorage_set_val (InMemoryStorage_init []) ''k'' (PStr ''x'')) ''k'' \<noteq> PList []"
  by (simp add: InMemoryStorage_get_list_def InMemoryStorage_set_val_def InMemoryStorage_init_def)

text \<open>
  C8. Compression is deterministic: in any run of \<^verbatim>\<open>compress\<close> calls on one instance, each
  call leaves the instance as it was, and its output is the output of \<^verbatim>\<open>compress\<close> for the
  same text on any other instance built from the same seed.
\<close>

theorem compress_deterministic:
  assumes "Compressor_init E sd = Some (Inr c1)" and "Compressor_init E sd = Some (Inr c2)"
  shows "compress_calls E c1 xs = (c1, map (\<lambda>x. snd (Compressor_compress E c2 x)) xs)"
proof -
  from assms have "c2 = c1" by simp
  moreover have "compress_calls E c1 xs = (c1, map (\<lambda>x. snd (Compressor_compress E c1 x)) xs)"
    by (induction xs) (simp_all add: Let_def compress_self)
  ultimately show ?thesis by simp
qed

theorem compress_deterministic_witness:
  "Compressor_init example_env seed = Some (Inr example_compressor)
   \<and> compress_calls example_env example_compressor [''[1, 2]'', ''[3, 4]'', ''[1, 2]'']
       = (example_compressor, [''[1, 2]'', ''[3, 4]'', ''[1, 2]''])"
  using compress_deterministic [OF example_init [of seed] example_init [of seed],
      where xs = "[''[1, 2]'', ''[3, 4]'', ''[1, 2]'']"]
    example_init [of seed] example_compress
  by simp

text \<open>
  C9. On the embedded backend, two \<^verbatim>\<open>append_val\<close> calls with the same value under a key
  that has no items leave one item: \<^verbatim>\<open>compress\<close> gives the same bytes twice, and a dupsort
  database keeps a data item once per key. \<^verbatim>\<open>get_list\<close> then returns a list of length 1.
\<close>

theorem lmdb_same_value_stored_once:
  assumes ok: "zlib_ok E"
    and init: "Compressor_init E seed = Some (Inr (lmdb_c self))"
    and dumps: "json_dumps E v = Inr js"
    and fresh: "lmdb_items (lmdb_storage self) key = []"
    and put_ok: "lmdb_put_ok E key (snd (Compressor_compress E (lmdb_c self) js))"
    and key_ok: "lmdb_key_ok E key"
  shows "lmdb_appends_then_get E self key [v, v] = Some (Inr [PStr js])"
proof -
  define ctext where "ctext = snd (Compressor_compress E (lmdb_c self) js)"
  define s1 where "s1 = self\<lparr>lmdb_storage := AList.update key [ctext] (lmdb_storage self)\<rparr>"
  have a1: "LMDBStorage_append_val E self key v = Inr s1"
    using lmdb_append_ok [OF dumps put_ok] fresh
    by (simp add: s1_def ctext_def insort_insert_key_def)
  have c1: "lmdb_c s1 = lmdb_c self"
    by (simp add: s1_def)
  have items: "lmdb_items (lmdb_storage s1) key = [ctext]"
    by (simp add: s1_def lmdb_items_update)
  have "LMDBStorage_append_val E s1 key v
          = Inr (s1\<lparr>lmdb_storage := AList.update key [ctext] (lmdb_storage s1)\<rparr>)"
    using lmdb_append_ok [of E v js key s1] dumps put_ok
    by (simp add: c1 items insort_insert_key_def flip: ctext_def)
  also have "s1\<lparr>lmdb_storage := AList.update key [ctext] (lmdb_storage s1)\<rparr> = s1"
    by (simp add: s1_def)
  finally have a2: "LMDBStorage_append_val E s1 key v = Inr s1" .
  have "decompress_each E (lmdb_c s1) [ctext] = Some (Inr (lmdb_c s1, [js]))"
    using decompress_each_compressed [OF ok init, of "[js]"]
    by (simp add: c1 ctext_def)
  then have "LMDBStorage_get_list E s1 key = Some (Inr (s1, [PStr js]))"
    using key_ok items
    by (simp add: LMDBStorage_get_list_def lmdb_set_key_def lmdb_iternext_dup_def
        bind_result_def)
  with a1 a2 show ?thesis
    by (simp add: lmdb_appends_then_get_def bind_result_def)
qed

theorem lmdb_same_value_stored_once_witness:
  "zlib_ok example_env
   \<and> Compressor_init example_env seed = Some (Inr (lmdb_c example_lmdb))
   \<and> json_dumps example_env (PList [PInt 1, PInt 2]) = Inr ''[1, 2]''
   \<and> lmdb_items (lmdb_storage example_lmdb) ''k1'' = []
   \<and> lmdb_put_ok example_env ''k1''
        (snd (Compressor_compress example_env (lmdb_c example_lmdb) ''[1, 2]''))
   \<and> lmdb_key_ok example_env ''k1''
   \<and> lmdb_appends_then_get example_env example_lmdb ''k1''
        [PList [PInt 1, PInt 2], PList [PInt 1, PInt 2]]
       = Some (Inr [PStr ''[1, 2]''])"
proof -
  have init: "Compressor_init example_env seed = Some (Inr (lmdb_c example_lmdb))"
    by (simp add: example_init example_lmdb_def)
  have dumps: "json_dumps example_env (PList [PInt 1, PInt 2]) = Inr ''[1, 2]''"
    by (simp add: example_env_fields str_int_def str_nat_digit digit_chars)
  have fresh: "lmdb_items (lmdb_storage example_lmdb) ''k1'' = []"
    by (simp add: example_lmdb_def lmdb_items_def)
  have put_ok: "lmdb_put_ok example_env ''k1''
        (snd (Compressor_compress example_env (lmdb_c example_lmdb) ''[1, 2]''))"
    by (simp add: example_env_fields example_lmdb_def example_compress)
  have key_ok: "lmdb_key_ok example_env ''k1''"
    by (simp add: example_env_fields)
  from lmdb_same_value_stored_once [OF example_env_ok init dumps fresh put_ok key_ok]
    example_env_ok init dumps fresh put_ok key_ok
  show ?thesis by simp
qed

text \<open>
  C10. When the factory takes the redis (resp. lmdb) branch, the descriptor it leaves is the
  caller's with \<^verbatim>\<open>db\<close> set in the chosen sub-dictionary: to the index as an integer for
  redis, to \<^verbatim>\<open>str(index)\<close> for lmdb.
\<close>

theorem storage_writes_db:
  assumes "map_of cfg ''dict'' = None"
  shows "(map_of cfg ''redis'' = Some sub
            \<longrightarrow> fst (storage E cfg index)
                  = AList.update ''redis'' (AList.update ''db'' (PInt index) sub) cfg
                \<and> map_of (fst (storage E cfg index)) ''redis''
                  = Some (AList.update ''db'' (PInt index) sub)
                \<and> map_of (AList.update ''db'' (PInt index) sub) ''db'' = Some (PInt index))
         \<and> (map_of cfg ''redis'' = None \<and> map_of cfg ''lmdb'' = Some sub
            \<longrightarrow> fst (storage E cfg index)
                  = AList.update ''lmdb'' (AList.update ''db'' (PStr (str_int index)) sub) cfg
                \<and> map_of (fst (storage E cfg index)) ''lmdb''
                  = Some (AList.update ''db'' (PStr (str_int index)) sub)
                \<and> map_of (AList.update ''db'' (PStr (str_int index)) sub) ''db''
                  = Some (PStr (str_int index)))"
  using assms by (simp add: storage_def Let_def update_conv')

theorem storage_writes_db_witness:
  "map_of [(''lmdb'', [(''path'', PStr ''/Users/christianburger/Downloads/testlmdb'')])] ''dict''
     = None
   \<and> fst (storage example_env
             [(''lmdb'', [(''path'', PStr ''/Users/christianburger/Downloads/testlmdb'')])] 0)
       = [(''lmdb'', [(''path'', PStr ''/Users/christianburger/Downloads/testlmdb''),
                      (''db'', PStr ''0'')])]
   \<and> fst (storage example_env [(''redis'', [(''host'', PStr ''localhost'')])] 2)
       = [(''redis'', [(''host'', PStr ''localhost''), (''db'', PInt 2)])]"
proof -
  have a: "map_of [(''lmdb'', [(''path'', PStr ''/Users/christianburger/Downloads/testlmdb'')])]
             ''dict'' = None"
    by simp
  have b: "map_of [(''redis'', [(''host'', PStr ''localhost'')])] ''dict'' = None"
    by simp
  from storage_writes_db [OF a,
      where sub = "[(''path'', PStr ''/Users/christianburger/Downloads/testlmdb'')]"
        and E = example_env and index = 0]
    storage_writes_db [OF b, where sub = "[(''host'', PStr ''localhost'')]"
        and E = example_env and index = 2] a
  show ?thesis
    by (simp add: str_int_def str_nat_digit digit_chars)
qed

end
